theory Spec2Isabelle
  imports Main
begin

section \<open>The click-counter widget \<open>Equation\<close>\<close>

text \<open>
  The component \<open>Equation\<close> of \<open>src/app/(home)/components/Equation/Equation.tsx\<close>
  keeps two \<open>useState<number>\<close> cells, shows them in two clickable boxes and shows
  their sum in a third box. This theory embeds the component: the numbers, the hook
  state, the two click handlers, the render and the event loop.
\<close>

subsection \<open>TypeScript numbers on integer values\<close>

text \<open>
  A TypeScript \<open>number\<close> is an IEEE-754 binary64 value. The only numbers this
  component ever builds come from the literals \<open>0\<close> and \<open>1\<close> by \<open>+\<close>, so they are
  integer-valued, and an integer-valued double is modelled by the integer it denotes.
  The significand has 53 bits: a sum that needs more is rounded to the nearest
  representable value, ties to the even significand. \<open>bitlen n\<close> is the number of
  binary digits of \<open>n\<close>; \<open>round53 n\<close> is the double nearest to the natural number
  \<open>n\<close>. (Sums of magnitude \<open>2 ^ 1024\<close> and above, which would be \<open>Infinity\<close>, are
  far outside anything the counters reach and are not modelled.)
\<close>

type_synonym number = int

fun bitlen :: "nat \<Rightarrow> nat" where
  "bitlen n = (if n = 0 then 0 else Suc (bitlen (n div 2)))"

declare bitlen.simps [simp del]

definition round53 :: "nat \<Rightarrow> nat" where
  "round53 n =
     (if n < 2 ^ 53 then n
      else let e = bitlen n - 53;
               q = n div 2 ^ e;
               r = n mod 2 ^ e;
               half = 2 ^ (e - 1)
           in if r < half \<or> (r = half \<and> even q) then q * 2 ^ e else (q + 1) * 2 ^ e)"

definition to_double :: "int \<Rightarrow> number" where
  "to_double x = (if x < 0 then - int (round53 (nat (- x))) else int (round53 (nat x)))"

text \<open>The operator \<open>+\<close> of the source on two numbers.\<close>

definition js_add :: "number \<Rightarrow> number \<Rightarrow> number" where
  "js_add a b = to_double (a + b)"

subsection \<open>Hook state, handlers and render\<close>

text \<open>
  The state React keeps for the component: the two \<open>useState\<close> cells. There is no
  cell for the total.
\<close>

record state =
  leftCount :: number
  middleCount :: number

text \<open>Both cells are created by \<open>useState<number>(0)\<close>.\<close>

definition initial :: state where
  "initial = \<lparr>leftCount = 0, middleCount = 0\<rparr>"

text \<open>
  The two callbacks. Each is a closure over the value its counter had in the render
  that created it (\<open>r\<close>, the rendered state) and calls the setter with that value plus
  one; \<open>s\<close> is the hook state the setter updates. \<open>useCallback\<close> lists the captured
  counter as its only dependency, so the memoised closure always carries the counter
  of the latest render.
\<close>

definition updateLeftCount :: "state \<Rightarrow> state \<Rightarrow> state" where
  "updateLeftCount r s = s\<lparr>leftCount := js_add (leftCount r) 1\<rparr>"

definition updateMiddleCount :: "state \<Rightarrow> state \<Rightarrow> state" where
  "updateMiddleCount r s = s\<lparr>middleCount := js_add (middleCount r) 1\<rparr>"

text \<open>
  The three boxes of the returned fragment, by their class names, and what a render
  shows in them.
\<close>

datatype box = sample_box_left | sample_box_middle | sample_box_right

record view =
  shown_left :: number
  shown_middle :: number
  shown_right :: number

text \<open>
  One render: read the two cells, compute \<open>totalCount = leftCount + middleCount\<close>,
  return the fragment. The hook state is passed through, so that what a render does to
  it is part of the model. The boxes show the numbers as decimal text; the view keeps
  the numbers themselves.
\<close>

definition Equation :: "state \<Rightarrow> view \<times> state" where
  "Equation s =
     (let leftCount' = leftCount s;
          middleCount' = middleCount s;
          totalCount' = js_add leftCount' middleCount'
      in (\<lparr>shown_left = leftCount', shown_middle = middleCount', shown_right = totalCount'\<rparr>, s))"

text \<open>The \<open>onClick\<close> attribute of each box; the right box has none.\<close>

fun onClick :: "box \<Rightarrow> (state \<Rightarrow> state \<Rightarrow> state) option" where
  "onClick sample_box_left = Some updateLeftCount"
| "onClick sample_box_middle = Some updateMiddleCount"
| "onClick sample_box_right = None"

text \<open>
  One click: the handler of the current render, if the box has one, runs to completion
  on the current hook state, and the component renders again before the next event.
\<close>

definition click :: "box \<Rightarrow> state \<Rightarrow> state" where
  "click b s = (case onClick b of None \<Rightarrow> s | Some handler \<Rightarrow> handler (snd (Equation s)) s)"

fun clicks :: "box list \<Rightarrow> state \<Rightarrow> state" where
  "clicks [] s = s"
| "clicks (b # bs) s = clicks bs (click b s)"

text \<open>What the user reads off the screen: the fragment of the current render.\<close>

definition read :: "state \<Rightarrow> view" where
  "read s = fst (Equation s)"

text \<open>
  The operation \<open>increment\<close> of the widget on a selected box: the handler which that
  box carries in the current render, run on the current hook state. Errors are values:
  a box without a handler performs no increment, \<open>None\<close>. The handlers contain no
  \<open>throw\<close> and \<open>+\<close> on two numbers raises nothing, so the source has no other
  failing branch.
\<close>

definition increment :: "box \<Rightarrow> state \<Rightarrow> state option" where
  "increment b s =
     (case onClick b of None \<Rightarrow> None | Some handler \<Rightarrow> Some (handler (snd (Equation s)) s))"

text \<open>A sequence of increments, each on the render the one before left; the first failure ends it.\<close>

fun increments :: "box list \<Rightarrow> state \<Rightarrow> state option" where
  "increments [] s = Some s"
| "increments (b # bs) s =
     (case increment b s of None \<Rightarrow> None | Some s' \<Rightarrow> increments bs s')"

text \<open>The expression \<open>count + 1\<close> of both handlers, named for the proofs.\<close>

definition plus_one :: "number \<Rightarrow> number" where
  "plus_one x = js_add x 1"

section \<open>Arithmetic of the counters\<close>

lemma round53_small: "n < 2 ^ 53 \<Longrightarrow> round53 n = n"
  by (simp add: round53_def)

lemma bitlen_double: "0 < n \<Longrightarrow> bitlen (2 * n) = Suc (bitlen n)"
  by (subst bitlen.simps) simp

lemma bitlen_double1: "bitlen (2 * n + 1) = Suc (bitlen n)"
  by (subst bitlen.simps) simp

lemma bitlen_pow: "bitlen (2 ^ k) = Suc k"
proof (induction k)
  case 0
  show ?case by (simp add: bitlen.simps)
next
  case (Suc k)
  then show ?case by (simp add: bitlen_double)
qed

lemma bitlen_pow_1: "0 < k \<Longrightarrow> bitlen (2 ^ k + 1) = Suc k"
proof -
  assume "0 < k"
  then obtain j where k: "k = Suc j" by (cases k) auto
  have "bitlen (2 * 2 ^ j + 1) = Suc (bitlen (2 ^ j))" by (rule bitlen_double1)
  then show ?thesis by (simp add: k bitlen_pow)
qed

lemma bitlen_n53: "bitlen 9007199254740992 = 54"
  using bitlen_pow [of 53] by simp

lemma bitlen_n53_1: "bitlen 9007199254740993 = 54"
  using bitlen_pow_1 [of 53] by simp

lemma round53_pow53: "round53 (2 ^ 53) = 2 ^ 53"
  by (simp add: round53_def bitlen_n53)

lemma round53_pow53_1: "round53 (2 ^ 53 + 1) = 2 ^ 53"
  by (simp add: round53_def bitlen_n53_1 Let_def)

lemma round53_le: "n \<le> 2 ^ 53 \<Longrightarrow> round53 n = n"
  using round53_small [of n] round53_pow53 by (cases "n = 2 ^ 53") auto

lemma js_add_exact:
  assumes "0 \<le> a" "0 \<le> b" "a + b \<le> 2 ^ 53"
  shows "js_add a b = a + b"
proof -
  have "nat (a + b) \<le> 2 ^ 53" using assms by simp
  then have "round53 (nat (a + b)) = nat (a + b)" by (rule round53_le)
  then show ?thesis using assms by (simp add: js_add_def to_double_def)
qed

lemma js_add_top: "js_add (2 ^ 53) 1 = 2 ^ 53"
proof -
  have "nat (2 ^ 53 + 1) = (2 ^ 53 + 1 :: nat)" by simp
  then show ?thesis
    using round53_pow53_1 by (simp add: js_add_def to_double_def)
qed

lemma js_add_one:
  assumes "0 \<le> x" "x \<le> 2 ^ 53"
  shows "js_add x 1 = min (x + 1) (2 ^ 53)"
proof (cases "x = 2 ^ 53")
  case True
  then show ?thesis using js_add_top by simp
next
  case False
  then have "x + 1 \<le> 2 ^ 53" using assms by simp
  then show ?thesis using assms js_add_exact [of x 1] by simp
qed

lemma click_left: "click sample_box_left s = s\<lparr>leftCount := js_add (leftCount s) 1\<rparr>"
  by (simp add: click_def Equation_def updateLeftCount_def Let_def)

lemma click_middle: "click sample_box_middle s = s\<lparr>middleCount := js_add (middleCount s) 1\<rparr>"
  by (simp add: click_def Equation_def updateMiddleCount_def Let_def)

lemma click_right: "click sample_box_right s = s"
  by (simp add: click_def)

lemma read_eq:
  "read s = \<lparr>shown_left = leftCount s, shown_middle = middleCount s,
              shown_right = js_add (leftCount s) (middleCount s)\<rparr>"
  by (simp add: read_def Equation_def Let_def)

lemma funpow_inc: "(plus_one ^^ k) 0 = min (int k) (2 ^ 53)"
proof (induction k)
  case 0
  show ?case by simp
next
  case (Suc k)
  have "js_add (min (int k) (2 ^ 53)) 1 = min (min (int k) (2 ^ 53) + 1) (2 ^ 53)"
    by (rule js_add_one) simp_all
  then show ?case using Suc by (simp add: plus_one_def min_def)
qed

lemma clicks_append: "clicks (bs @ cs) s = clicks cs (clicks bs s)"
  by (induction bs arbitrary: s) simp_all

lemma clicks_funpow:
  "clicks bs s =
     \<lparr>leftCount = (plus_one ^^ count_list bs sample_box_left) (leftCount s),
      middleCount = (plus_one ^^ count_list bs sample_box_middle) (middleCount s)\<rparr>"
proof (induction bs arbitrary: s)
  case Nil
  show ?case by simp
next
  case (Cons b bs)
  show ?case
    by (cases b) (simp_all add: Cons.IH click_left click_middle click_right funpow_swap1
        plus_one_def [symmetric])
qed

lemma clicks_initial:
  "clicks bs initial =
     \<lparr>leftCount = min (int (count_list bs sample_box_left)) (2 ^ 53),
      middleCount = min (int (count_list bs sample_box_middle)) (2 ^ 53)\<rparr>"
  unfolding clicks_funpow [of bs initial] by (simp add: initial_def funpow_inc)

lemma count_list_replicate_same: "count_list (replicate n x) x = n"
  by (induction n) simp_all

lemma count_list_replicate_other: "x \<noteq> y \<Longrightarrow> count_list (replicate n x) y = 0"
  by (induction n) simp_all

lemma left_clicks_top:
  "clicks (replicate (2 ^ 53) sample_box_left) initial = \<lparr>leftCount = 2 ^ 53, middleCount = 0\<rparr>"
  unfolding clicks_initial by (simp only: count_list_replicate_same count_list_replicate_other) simp

lemma js_add_zero: "js_add 0 0 = 0"
  using js_add_exact [of 0 0] by simp

lemma left_then_middle_top:
  "clicks (replicate (2 ^ 53) sample_box_left @ [sample_box_middle]) initial
     = \<lparr>leftCount = 2 ^ 53, middleCount = 1\<rparr>"
  unfolding clicks_initial count_list_append
  by (simp only: count_list_replicate_same count_list_replicate_other) simp

lemma left_clicks_over:
  "clicks (replicate (2 ^ 53 + 1) sample_box_left) initial = \<lparr>leftCount = 2 ^ 53, middleCount = 0\<rparr>"
  unfolding clicks_initial by (simp only: count_list_replicate_same count_list_replicate_other) simp

lemma reachable_bounds:
  "0 \<le> leftCount (clicks bs initial) \<and> leftCount (clicks bs initial) \<le> 2 ^ 53
   \<and> 0 \<le> middleCount (clicks bs initial) \<and> middleCount (clicks bs initial) \<le> 2 ^ 53"
  by (simp add: clicks_initial)

lemma increment_left: "increment sample_box_left s = Some (s\<lparr>leftCount := js_add (leftCount s) 1\<rparr>)"
  by (simp add: increment_def Equation_def updateLeftCount_def Let_def)

lemma increment_middle:
  "increment sample_box_middle s = Some (s\<lparr>middleCount := js_add (middleCount s) 1\<rparr>)"
  by (simp add: increment_def Equation_def updateMiddleCount_def Let_def)

lemma increment_right: "increment sample_box_right s = None"
  by (simp add: increment_def)

lemma increment_click: "b \<noteq> sample_box_right \<Longrightarrow> increment b s = Some (click b s)"
  by (cases b) (simp_all add: increment_left increment_middle click_left click_middle)

lemma increments_clicks:
  "sample_box_right \<notin> set bs \<Longrightarrow> increments bs s = Some (clicks bs s)"
proof (induction bs arbitrary: s)
  case Nil
  show ?case by simp
next
  case (Cons b bs)
  then have "b \<noteq> sample_box_right" and rest: "sample_box_right \<notin> set bs" by auto
  then have "increment b s = Some (click b s)" by (simp add: increment_click)
  then show ?case using Cons.IH [OF rest] by simp
qed

lemma increments_right:
  "sample_box_right \<in> set bs \<Longrightarrow> increments bs s = None"
proof (induction bs arbitrary: s)
  case Nil
  then show ?case by simp
next
  case (Cons b bs)
  show ?case
  proof (cases "b = sample_box_right")
    case True
    then show ?thesis by (simp add: increment_right)
  next
    case False
    then have "increment b s = Some (click b s)" by (rule increment_click)
    moreover have "sample_box_right \<in> set bs" using Cons.prems False by auto
    ultimately show ?thesis using Cons.IH by simp
  qed
qed

section \<open>Properties of the widget\<close>

text \<open>
  Claim C3. In the initial state both counters are zero and the screen shows 0, 0 and the
  total 0.
\<close>

theorem initial_state_zero:
  "leftCount initial = 0 \<and> middleCount initial = 0
   \<and> read initial = \<lparr>shown_left = 0, shown_middle = 0, shown_right = 0\<rparr>"
  by (simp add: read_eq initial_def js_add_zero)

text \<open>
  Claim C4, as the code has it. A click on the left or the middle box increases that
  counter by exactly one in every state where the counter is an integer from 0 up to
  \<open>2 ^ 53 - 1\<close>; at \<open>2 ^ 53\<close> the click leaves the counter where it is.
\<close>

theorem increment_by_one:
  "(0 \<le> leftCount s \<and> leftCount s < 2 ^ 53
      \<longrightarrow> leftCount (click sample_box_left s) = leftCount s + 1)
   \<and> (0 \<le> middleCount s \<and> middleCount s < 2 ^ 53
      \<longrightarrow> middleCount (click sample_box_middle s) = middleCount s + 1)
   \<and> (leftCount s = 2 ^ 53 \<longrightarrow> leftCount (click sample_box_left s) = 2 ^ 53)
   \<and> (middleCount s = 2 ^ 53 \<longrightarrow> middleCount (click sample_box_middle s) = 2 ^ 53)"
proof -
  have "js_add x 1 = x + 1" if "0 \<le> x" "x < 2 ^ 53" for x :: int
    using that by (intro js_add_exact) simp_all
  then show ?thesis using js_add_top by (simp add: click_left click_middle)
qed

text \<open>
  From left = 4 and middle = 7 the clicks give 5 and 8; at \<open>2 ^ 53\<close> both stay.
\<close>

theorem increment_by_one_witness:
  "(0::int) \<le> 4 \<and> (4::int) < 2 ^ 53 \<and> (0::int) \<le> 7 \<and> (7::int) < 2 ^ 53
   \<and> leftCount (click sample_box_left \<lparr>leftCount = 4, middleCount = 7\<rparr>) = 5
   \<and> middleCount (click sample_box_middle \<lparr>leftCount = 4, middleCount = 7\<rparr>) = 8
   \<and> leftCount (click sample_box_left \<lparr>leftCount = 2 ^ 53, middleCount = 2 ^ 53\<rparr>) = 2 ^ 53
   \<and> middleCount (click sample_box_middle \<lparr>leftCount = 2 ^ 53, middleCount = 2 ^ 53\<rparr>) = 2 ^ 53"
  using increment_by_one [of "\<lparr>leftCount = 4, middleCount = 7\<rparr>"]
    increment_by_one [of "\<lparr>leftCount = 2 ^ 53, middleCount = 2 ^ 53\<rparr>"]
  by simp

text \<open>
  With the left counter at \<open>2 ^ 53\<close> a click does not give \<open>2 ^ 53 + 1\<close>.
\<close>

theorem increment_by_one_counterexample:
  "leftCount (click sample_box_left \<lparr>leftCount = 2 ^ 53, middleCount = 0\<rparr>) \<noteq> 2 ^ 53 + 1"
  using js_add_top by (simp add: click_left)

text \<open>
  Claim C6. In every state a click on the left box leaves the middle counter unchanged
  and a click on the middle box leaves the left counter unchanged.
\<close>

theorem counters_independent:
  "middleCount (click sample_box_left s) = middleCount s
   \<and> leftCount (click sample_box_middle s) = leftCount s"
  by (simp add: click_left click_middle)

text \<open>
  Claim C10. The right box, which shows the total, has no click handler: in every state a
  click on it changes neither the state nor what the screen shows.
\<close>

theorem right_box_click_noop:
  "onClick sample_box_right = None
   \<and> click sample_box_right s = s
   \<and> read (click sample_box_right s) = read s"
  by (simp add: click_right)

text \<open>
  Claim C8. An increment never fails. In every state the increment on the left box and the
  increment on the middle box return a successor state, the one the click produces; only
  the right box, which selects no counter, gives no increment. In every state whose
  counters lie between 0 and \<open>2 ^ 53\<close>, which are the states the widget reaches, the
  successor has the selected counter at the smaller of the counter plus one and
  \<open>2 ^ 53\<close> and the other counter unchanged, so it is again such a state. Every
  sequence of increments on the left and middle boxes from the initial state runs to its
  end without a failure and ends in the state of the two click counts, each capped at
  \<open>2 ^ 53\<close>; a sequence fails only if it selects the right box. At the extreme count
  \<open>2 ^ 53\<close> the increment returns the state it started from, not an error.
\<close>

theorem increment_never_fails:
  "increment sample_box_left s = Some (click sample_box_left s)
   \<and> increment sample_box_middle s = Some (click sample_box_middle s)
   \<and> increment sample_box_right s = None
   \<and> (0 \<le> leftCount s \<and> leftCount s \<le> 2 ^ 53 \<and> 0 \<le> middleCount s \<and> middleCount s \<le> 2 ^ 53
      \<longrightarrow> increment sample_box_left s = Some (s\<lparr>leftCount := min (leftCount s + 1) (2 ^ 53)\<rparr>)
        \<and> increment sample_box_middle s
            = Some (s\<lparr>middleCount := min (middleCount s + 1) (2 ^ 53)\<rparr>))
   \<and> (sample_box_right \<notin> set bs
      \<longrightarrow> increments bs initial
            = Some \<lparr>leftCount = min (int (count_list bs sample_box_left)) (2 ^ 53),
                    middleCount = min (int (count_list bs sample_box_middle)) (2 ^ 53)\<rparr>)
   \<and> (sample_box_right \<in> set bs \<longrightarrow> increments bs initial = None)
   \<and> increment sample_box_left \<lparr>leftCount = 2 ^ 53, middleCount = m\<rparr>
       = Some \<lparr>leftCount = 2 ^ 53, middleCount = m\<rparr>
   \<and> increment sample_box_middle \<lparr>leftCount = l, middleCount = 2 ^ 53\<rparr>
       = Some \<lparr>leftCount = l, middleCount = 2 ^ 53\<rparr>"
proof -
  have step: "increment sample_box_left s = Some (click sample_box_left s)
      \<and> increment sample_box_middle s = Some (click sample_box_middle s)"
    by (simp add: increment_click)
  have range: "increment sample_box_left s = Some (s\<lparr>leftCount := min (leftCount s + 1) (2 ^ 53)\<rparr>)
      \<and> increment sample_box_middle s = Some (s\<lparr>middleCount := min (middleCount s + 1) (2 ^ 53)\<rparr>)"
    if "0 \<le> leftCount s" "leftCount s \<le> 2 ^ 53" "0 \<le> middleCount s" "middleCount s \<le> 2 ^ 53"
    using that js_add_one [of "leftCount s"] js_add_one [of "middleCount s"]
    by (simp add: increment_left increment_middle)
  have run: "increments bs initial
            = Some \<lparr>leftCount = min (int (count_list bs sample_box_left)) (2 ^ 53),
                    middleCount = min (int (count_list bs sample_box_middle)) (2 ^ 53)\<rparr>"
    if "sample_box_right \<notin> set bs"
    using increments_clicks [OF that, of initial] by (simp only: clicks_initial)
  have top: "increment sample_box_left \<lparr>leftCount = 2 ^ 53, middleCount = m\<rparr>
       = Some \<lparr>leftCount = 2 ^ 53, middleCount = m\<rparr>
     \<and> increment sample_box_middle \<lparr>leftCount = l, middleCount = 2 ^ 53\<rparr>
       = Some \<lparr>leftCount = l, middleCount = 2 ^ 53\<rparr>"
    using js_add_top by (simp add: increment_left increment_middle)
  show ?thesis
    using step range run top increments_right [of bs initial]
    by (simp add: increment_right)
qed

text \<open>
  From left = 4 and middle = 7 the two increments return the states (5, 7) and (4, 8); the
  sequence left, middle, left from the initial state returns (2, 1); a sequence that
  selects the right box returns no state.
\<close>

theorem increment_never_fails_witness:
  "(0::int) \<le> 4 \<and> (4::int) \<le> 2 ^ 53 \<and> (0::int) \<le> 7 \<and> (7::int) \<le> 2 ^ 53
   \<and> increment sample_box_left \<lparr>leftCount = 4, middleCount = 7\<rparr>
       = Some \<lparr>leftCount = 5, middleCount = 7\<rparr>
   \<and> increment sample_box_middle \<lparr>leftCount = 4, middleCount = 7\<rparr>
       = Some \<lparr>leftCount = 4, middleCount = 8\<rparr>
   \<and> sample_box_right \<notin> set [sample_box_left, sample_box_middle, sample_box_left]
   \<and> increments [sample_box_left, sample_box_middle, sample_box_left] initial
       = Some \<lparr>leftCount = 2, middleCount = 1\<rparr>
   \<and> sample_box_right \<in> set [sample_box_left, sample_box_right]
   \<and> increments [sample_box_left, sample_box_right] initial = None"
  using increment_never_fails [of "\<lparr>leftCount = 4, middleCount = 7\<rparr>"
      "[sample_box_left, sample_box_middle, sample_box_left]" 0 0]
    increment_never_fails [of initial "[sample_box_left, sample_box_right]" 0 0]
  by auto

text \<open>
  Claim C9. In every state a click on the left box after a click on the middle box gives
  the same state, and so the same screen, as the two clicks in the other order; from
  any state, two click sequences with the same number of clicks on the left box and the
  same number on the middle box end in the same state and screen.
\<close>

theorem increments_commute:
  "click sample_box_left (click sample_box_middle s)
     = click sample_box_middle (click sample_box_left s)
   \<and> read (click sample_box_left (click sample_box_middle s))
     = read (click sample_box_middle (click sample_box_left s))
   \<and> (count_list bs sample_box_left = count_list cs sample_box_left
        \<and> count_list bs sample_box_middle = count_list cs sample_box_middle
      \<longrightarrow> clicks bs s = clicks cs s \<and> read (clicks bs s) = read (clicks cs s))"
proof -
  have swap: "click sample_box_left (click sample_box_middle s)
     = click sample_box_middle (click sample_box_left s)"
    by (simp add: click_left click_middle)
  have counts: "clicks bs s = clicks cs s"
    if "count_list bs sample_box_left = count_list cs sample_box_left"
      and "count_list bs sample_box_middle = count_list cs sample_box_middle"
    using that by (simp add: clicks_funpow [of bs] clicks_funpow [of cs])
  show ?thesis using swap counts by simp
qed

text \<open>
  Left, middle, left and middle, left, left both end with left = 2 and middle = 1.
\<close>

theorem increments_commute_witness:
  "count_list [sample_box_left, sample_box_middle, sample_box_left] sample_box_left
     = count_list [sample_box_middle, sample_box_left, sample_box_left] sample_box_left
   \<and> count_list [sample_box_left, sample_box_middle, sample_box_left] sample_box_middle
     = count_list [sample_box_middle, sample_box_left, sample_box_left] sample_box_middle
   \<and> clicks [sample_box_left, sample_box_middle, sample_box_left] initial
     = clicks [sample_box_middle, sample_box_left, sample_box_left] initial
   \<and> clicks [sample_box_left, sample_box_middle, sample_box_left] initial
     = \<lparr>leftCount = 2, middleCount = 1\<rparr>"
  using increments_commute [of initial
      "[sample_box_left, sample_box_middle, sample_box_left]"
      "[sample_box_middle, sample_box_left, sample_box_left]"]
  by (simp add: clicks_initial)

text \<open>
  Claim C7, as the code has it. In every state a render returns the left counter, the
  middle counter and their sum as the source computes it, in double precision, and
  returns the hook state unchanged; for counters that are not negative and whose sum is at
  most \<open>2 ^ 53\<close> the third value is the exact integer sum.
\<close>

theorem read_pure:
  "read s = \<lparr>shown_left = leftCount s, shown_middle = middleCount s,
              shown_right = js_add (leftCount s) (middleCount s)\<rparr>
   \<and> snd (Equation s) = s
   \<and> (0 \<le> leftCount s \<and> 0 \<le> middleCount s \<and> leftCount s + middleCount s \<le> 2 ^ 53
      \<longrightarrow> shown_right (read s) = leftCount s + middleCount s)"
  using js_add_exact [of "leftCount s" "middleCount s"]
  by (simp add: read_eq Equation_def Let_def)

text \<open>
  At left = 2 and middle = 3 the render returns 2, 3 and 5 and keeps the state.
\<close>

theorem read_pure_witness:
  "(0::int) \<le> 2 \<and> (0::int) \<le> 3 \<and> (2::int) + 3 \<le> 2 ^ 53
   \<and> read \<lparr>leftCount = 2, middleCount = 3\<rparr>
       = \<lparr>shown_left = 2, shown_middle = 3, shown_right = 5\<rparr>
   \<and> snd (Equation \<lparr>leftCount = 2, middleCount = 3\<rparr>) = \<lparr>leftCount = 2, middleCount = 3\<rparr>"
  using read_pure [of "\<lparr>leftCount = 2, middleCount = 3\<rparr>"]
  by (simp add: read_eq)

text \<open>
  At left = \<open>2 ^ 53\<close> and middle = 1 the third value is not \<open>2 ^ 53 + 1\<close>.
\<close>

theorem read_triple_counterexample:
  "shown_right (read \<lparr>leftCount = 2 ^ 53, middleCount = 1\<rparr>) \<noteq> 2 ^ 53 + 1"
  using js_add_top by (simp add: read_eq)

text \<open>
  Claim C1, as the code has it. After every sequence of clicks from the initial state,
  the total on the screen is the sum the source computes from the two counters on the
  screen, \<open>leftCount + middleCount\<close> in double precision, and it is their exact
  integer sum whenever that sum is at most \<open>2 ^ 53\<close>. The hook state has no cell for
  the total: each render computes it from the two cells.
\<close>

theorem total_displayed:
  "shown_right (read (clicks bs initial))
     = js_add (shown_left (read (clicks bs initial))) (shown_middle (read (clicks bs initial)))
   \<and> (shown_left (read (clicks bs initial)) + shown_middle (read (clicks bs initial)) \<le> 2 ^ 53
      \<longrightarrow> shown_right (read (clicks bs initial))
          = shown_left (read (clicks bs initial)) + shown_middle (read (clicks bs initial)))"
proof -
  let ?s = "clicks bs initial"
  have "js_add (leftCount ?s) (middleCount ?s) = leftCount ?s + middleCount ?s"
    if "leftCount ?s + middleCount ?s \<le> 2 ^ 53"
    using that reachable_bounds [of bs] by (intro js_add_exact) simp_all
  then show ?thesis by (simp add: read_eq)
qed

text \<open>
  The exact sum at a concrete sequence: one click on the left box and two on the middle
  box show the total 3.
\<close>

theorem total_displayed_witness:
  "shown_left (read (clicks [sample_box_left, sample_box_middle, sample_box_middle] initial))
     + shown_middle (read (clicks [sample_box_left, sample_box_middle, sample_box_middle] initial))
     \<le> 2 ^ 53
   \<and> shown_right (read (clicks [sample_box_left, sample_box_middle, sample_box_middle] initial)) = 3"
  using total_displayed [of "[sample_box_left, sample_box_middle, sample_box_middle]"]
  by (simp add: clicks_initial read_eq)

text \<open>
  As an exact integer sum the total fails at extreme counts: after \<open>2 ^ 53\<close> clicks on
  the left box and one on the middle box the screen shows \<open>2 ^ 53\<close>, 1 and again
  \<open>2 ^ 53\<close>, because \<open>2 ^ 53 + 1\<close> is not a double.
\<close>

theorem total_displayed_counterexample:
  "shown_right (read (clicks (replicate (2 ^ 53) sample_box_left @ [sample_box_middle]) initial))
   \<noteq> shown_left (read (clicks (replicate (2 ^ 53) sample_box_left @ [sample_box_middle]) initial))
     + shown_middle (read (clicks (replicate (2 ^ 53) sample_box_left @ [sample_box_middle]) initial))"
  unfolding left_then_middle_top using js_add_top by (simp add: read_eq)

text \<open>
  Claim C2, as the code has it. A sequence of clicks with \<open>n\<close> clicks on the left box
  and \<open>m\<close> on the middle box, in any order, both at most \<open>2 ^ 53\<close>, ends from the
  initial state with left = n and middle = m; when \<open>n + m\<close> is at most \<open>2 ^ 53\<close>
  the screen shows n, m and n + m.
\<close>

theorem clicks_n_m:
  assumes "count_list bs sample_box_left = n" and "count_list bs sample_box_middle = m"
    and "n \<le> 2 ^ 53" and "m \<le> 2 ^ 53"
  shows "leftCount (clicks bs initial) = int n
   \<and> middleCount (clicks bs initial) = int m
   \<and> (n + m \<le> 2 ^ 53 \<longrightarrow>
        read (clicks bs initial)
          = \<lparr>shown_left = int n, shown_middle = int m, shown_right = int n + int m\<rparr>)"
proof -
  have s: "clicks bs initial = \<lparr>leftCount = int n, middleCount = int m\<rparr>"
    using assms by (simp add: clicks_initial min_def)
  have "js_add (int n) (int m) = int n + int m" if "n + m \<le> 2 ^ 53"
  proof (rule js_add_exact)
    have "int (n + m) \<le> int (2 ^ 53)" using that by (simp only: of_nat_le_iff)
    then show "int n + int m \<le> 2 ^ 53" by simp
  qed simp_all
  then show ?thesis by (simp add: s read_eq)
qed

text \<open>
  Two clicks on the left box interleaved with three on the middle box show 2, 3 and 5.
\<close>

theorem clicks_n_m_witness:
  "count_list [sample_box_left, sample_box_middle, sample_box_left, sample_box_middle,
       sample_box_middle] sample_box_left = 2
   \<and> count_list [sample_box_left, sample_box_middle, sample_box_left, sample_box_middle,
       sample_box_middle] sample_box_middle = 3
   \<and> (2::nat) \<le> 2 ^ 53 \<and> (3::nat) \<le> 2 ^ 53 \<and> (2::nat) + 3 \<le> 2 ^ 53
   \<and> read (clicks [sample_box_left, sample_box_middle, sample_box_left, sample_box_middle,
       sample_box_middle] initial)
     = \<lparr>shown_left = 2, shown_middle = 3, shown_right = 5\<rparr>"
  using clicks_n_m [of "[sample_box_left, sample_box_middle, sample_box_left, sample_box_middle,
       sample_box_middle]" 2 3]
  by simp

text \<open>
  For arbitrary natural numbers the statement fails: \<open>2 ^ 53 + 1\<close> clicks on the left
  box and none on the middle box leave the left counter at \<open>2 ^ 53\<close>.
\<close>

theorem clicks_n_m_counterexample:
  "count_list (replicate (2 ^ 53 + 1) sample_box_left) sample_box_left = 2 ^ 53 + 1
   \<and> count_list (replicate (2 ^ 53 + 1) sample_box_left) sample_box_middle = 0
   \<and> leftCount (clicks (replicate (2 ^ 53 + 1) sample_box_left) initial) \<noteq> 2 ^ 53 + 1"
  unfolding left_clicks_over
  by (simp only: count_list_replicate_same count_list_replicate_other) simp

text \<open>
  Claim C5, as the code has it. In every state reached from the initial one both counters
  are integers between 0 and \<open>2 ^ 53\<close>; no click on any box decreases either counter;
  a counter below \<open>2 ^ 53\<close> is strictly increased by a click on its own box; the left
  and the middle box carry a handler in every state; and the state with both counters
  at \<open>2 ^ 53\<close> is left unchanged by every click, so the state space is bounded.
\<close>

theorem counters_monotone_bounded:
  "0 \<le> leftCount (clicks bs initial) \<and> leftCount (clicks bs initial) \<le> 2 ^ 53
   \<and> 0 \<le> middleCount (clicks bs initial) \<and> middleCount (clicks bs initial) \<le> 2 ^ 53
   \<and> leftCount (clicks bs initial) \<le> leftCount (click b (clicks bs initial))
   \<and> middleCount (clicks bs initial) \<le> middleCount (click b (clicks bs initial))
   \<and> (leftCount (clicks bs initial) < 2 ^ 53 \<longrightarrow>
        leftCount (clicks bs initial) < leftCount (click sample_box_left (clicks bs initial)))
   \<and> (middleCount (clicks bs initial) < 2 ^ 53 \<longrightarrow>
        middleCount (clicks bs initial) < middleCount (click sample_box_middle (clicks bs initial)))
   \<and> onClick sample_box_left \<noteq> None \<and> onClick sample_box_middle \<noteq> None
   \<and> click b \<lparr>leftCount = 2 ^ 53, middleCount = 2 ^ 53\<rparr>
       = \<lparr>leftCount = 2 ^ 53, middleCount = 2 ^ 53\<rparr>"
proof -
  let ?s = "clicks bs initial"
  note bounds = reachable_bounds [of bs]
  have l: "js_add (leftCount ?s) 1 = min (leftCount ?s + 1) (2 ^ 53)"
    using bounds by (intro js_add_one) simp_all
  have m: "js_add (middleCount ?s) 1 = min (middleCount ?s + 1) (2 ^ 53)"
    using bounds by (intro js_add_one) simp_all
  have mono: "leftCount ?s \<le> leftCount (click b ?s) \<and> middleCount ?s \<le> middleCount (click b ?s)"
    using bounds by (cases b) (simp_all add: click_left click_middle click_right l m)
  have strict_l: "leftCount ?s < leftCount (click sample_box_left ?s)" if "leftCount ?s < 2 ^ 53"
    using that by (simp add: click_left l)
  have strict_m: "middleCount ?s < middleCount (click sample_box_middle ?s)"
    if "middleCount ?s < 2 ^ 53"
    using that by (simp add: click_middle m)
  have top: "click b \<lparr>leftCount = 2 ^ 53, middleCount = 2 ^ 53\<rparr>
       = \<lparr>leftCount = 2 ^ 53, middleCount = 2 ^ 53\<rparr>"
    using js_add_top by (cases b) (simp_all add: click_left click_middle click_right)
  show ?thesis using bounds mono strict_l strict_m top by simp
qed

text \<open>
  After one click on each box both counters are below \<open>2 ^ 53\<close> and a further click
  on either box strictly increases its counter.
\<close>

theorem counters_monotone_bounded_witness:
  "leftCount (clicks [sample_box_middle, sample_box_left] initial) < 2 ^ 53
   \<and> middleCount (clicks [sample_box_middle, sample_box_left] initial) < 2 ^ 53
   \<and> leftCount (clicks [sample_box_middle, sample_box_left] initial)
       < leftCount (click sample_box_left (clicks [sample_box_middle, sample_box_left] initial))
   \<and> middleCount (clicks [sample_box_middle, sample_box_left] initial)
       < middleCount (click sample_box_middle (clicks [sample_box_middle, sample_box_left] initial))"
  using counters_monotone_bounded [of "[sample_box_middle, sample_box_left]" sample_box_left]
  by (simp add: clicks_initial)

text \<open>
  After \<open>2 ^ 53\<close> clicks on the left box one more click does not increase the left
  counter.
\<close>

theorem counters_increasing_counterexample:
  "\<not> leftCount (clicks (replicate (2 ^ 53) sample_box_left) initial)
      < leftCount (click sample_box_left (clicks (replicate (2 ^ 53) sample_box_left) initial))"
  unfolding left_clicks_top using js_add_top by (simp add: click_left)

end
